theory Spec2Isabelle
  imports Main "HOL-Library.AList" "HOL-Library.Char_ord" "HOL-Library.List_Lexorder"
begin

section \<open>The Go library functions the handlers call\<close>

text \<open>
  Go strings are byte sequences; \<^typ>\<open>string\<close> (a list of 8-bit characters) is the same
  data. The handlers of \<^verbatim>\<open>main.go\<close> only call \<^verbatim>\<open>strings.Split\<close> and
  \<^verbatim>\<open>strings.Join\<close> with the one-byte separator \<^verbatim>\<open>","\<close>.
\<close>

subsection \<open>strings.Split, strings.Join\<close>

text \<open>\<^verbatim>\<open>strings.Split(s, sep)\<close> for a one-byte separator: the pieces between the
  separators; the empty string gives one empty piece, never an empty slice.\<close>

fun Split :: "string \<Rightarrow> char \<Rightarrow> string list" where
  "Split [] sep = [[]]"
| "Split (c # cs) sep =
     (if c = sep then [] # Split cs sep
      else (case Split cs sep of [] \<Rightarrow> [[c]] | w # ws \<Rightarrow> (c # w) # ws))"

fun Join :: "string list \<Rightarrow> string \<Rightarrow> string" where
  "Join [] sep = []"
| "Join [e] sep = e"
| "Join (e # es) sep = e @ sep @ Join es sep"

subsection \<open>strconv.Atoi\<close>

definition isDigit :: "char \<Rightarrow> bool" where
  "isDigit c = ((48::nat) \<le> of_char c \<and> of_char c \<le> (57::nat))"

definition digit :: "char \<Rightarrow> nat" where
  "digit c = of_char c - 48"

definition decimal :: "string \<Rightarrow> nat" where
  "decimal ds = foldl (\<lambda>n c. n * 10 + digit c) 0 ds"

text \<open>\<^verbatim>\<open>strconv.Atoi\<close> on a 64-bit platform: an optional sign, then at least one
  byte, all of them decimal digits (base 10 admits no underscore), and a value inside the
  range of \<^verbatim>\<open>int\<close>. \<open>None\<close> is the returned error (syntax or range).\<close>

definition Atoi :: "string \<Rightarrow> int option" where
  "Atoi s =
     (let neg = (s \<noteq> [] \<and> hd s = CHR ''-'');
          ds = (if s \<noteq> [] \<and> (hd s = CHR ''-'' \<or> hd s = CHR ''+'') then tl s else s)
      in if ds = [] \<or> \<not> list_all isDigit ds then None
         else let n = (if neg then - int (decimal ds) else int (decimal ds))
              in if - (2 ^ 63) \<le> n \<and> n \<le> 2 ^ 63 - 1 then Some n else None)"

subsection \<open>time.Parse and Time.Format with the layout 2006-01-02\<close>

text \<open>The handler keeps of a \<^verbatim>\<open>time.Time\<close> only what the layout reads and prints:
  year, month and day.\<close>

datatype Time = Date (Year: int) (Month: int) (Day: int)

text \<open>\<^verbatim>\<open>getnum\<close> of package time: one or two digits; with \<open>fixed\<close> exactly two.\<close>

definition getnum :: "string \<Rightarrow> bool \<Rightarrow> (int \<times> string) option" where
  "getnum s fixed =
     (case s of
        [] \<Rightarrow> None
      | c0 # r0 \<Rightarrow>
          if \<not> isDigit c0 then None
          else (case r0 of
                  [] \<Rightarrow> if fixed then None else Some (int (digit c0), r0)
                | c1 # r1 \<Rightarrow>
                    if \<not> isDigit c1 then (if fixed then None else Some (int (digit c0), r0))
                    else Some (int (digit c0) * 10 + int (digit c1), r1)))"

text \<open>\<^verbatim>\<open>skip\<close> of package time, for a literal prefix without spaces (the layout's
  only literal is \<^verbatim>\<open>"-"\<close>): the value must start with the prefix.\<close>

fun skip :: "string \<Rightarrow> string \<Rightarrow> string option" where
  "skip v [] = Some v"
| "skip [] (p # ps) = None"
| "skip (c # v) (p # ps) = (if c = p then skip v ps else None)"

definition isLeap :: "int \<Rightarrow> bool" where
  "isLeap y = (y mod 4 = 0 \<and> (y mod 100 \<noteq> 0 \<or> y mod 400 = 0))"

definition daysIn :: "int \<Rightarrow> int \<Rightarrow> int" where
  "daysIn m y =
     (if m = 2 then (if isLeap y then 29 else 28)
      else if m = 4 \<or> m = 6 \<or> m = 9 \<or> m = 11 then 30 else 31)"

text \<open>\<^verbatim>\<open>time.Parse("2006-01-02", value)\<close>: a four-digit year, \<^verbatim>\<open>-\<close>, a two-digit
  month in 1..12, \<^verbatim>\<open>-\<close>, a two-digit day, nothing after it, and the day must exist in
  that month of that year. \<open>None\<close> is the returned \<^verbatim>\<open>*ParseError\<close>.\<close>

definition Parse :: "string \<Rightarrow> Time option" where
  "Parse v =
     (if length v < 4 \<or> \<not> isDigit (hd v) then None
      else if \<not> list_all isDigit (take 4 v) then None
      else let y = int (decimal (take 4 v)) in
        case skip (drop 4 v) ''-'' of
          None \<Rightarrow> None
        | Some v1 \<Rightarrow>
            (case getnum v1 True of
               None \<Rightarrow> None
             | Some (m, v2) \<Rightarrow>
                 if m \<le> 0 \<or> 12 < m then None
                 else (case skip v2 ''-'' of
                         None \<Rightarrow> None
                       | Some v3 \<Rightarrow>
                           (case getnum v3 True of
                              None \<Rightarrow> None
                            | Some (d, v4) \<Rightarrow>
                                if v4 \<noteq> [] then None
                                else if d < 1 \<or> daysIn m y < d then None
                                else Some (Date y m d)))))"

text \<open>The decimal digits of a number, each the byte \<^verbatim>\<open>'0' + d\<close> of a digit \<open>d\<close>.\<close>

fun digits :: "nat \<Rightarrow> string" where
  "digits n =
     (if n < 10 then [''0123456789'' ! n] else digits (n div 10) @ [''0123456789'' ! (n mod 10)])"

declare digits.simps [simp del]

text \<open>\<^verbatim>\<open>appendInt(b, x, width)\<close>: a minus sign for a negative \<open>x\<close>, then the decimal
  digits of its magnitude, padded with zeros on the left up to \<open>width\<close>.\<close>

definition appendInt :: "int \<Rightarrow> nat \<Rightarrow> string" where
  "appendInt x width =
     (let u = digits (nat \<bar>x\<bar>);
          padded = replicate (width - length u) (CHR ''0'') @ u
      in if x < 0 then CHR ''-'' # padded else padded)"

text \<open>\<^verbatim>\<open>t.Format("2006-01-02")\<close>.\<close>

definition Format :: "Time \<Rightarrow> string" where
  "Format t = appendInt (Year t) 4 @ ''-'' @ appendInt (Month t) 2 @ ''-'' @ appendInt (Day t) 2"


section \<open>Values: SQL driver values, Go values, JSON documents\<close>

text \<open>A \<^verbatim>\<open>float64\<close> is only passed through; what matters to \<^verbatim>\<open>encoding/json\<close> is
  whether it is finite. \<open>Finite m e\<close> stands for the double \<open>m * 2 ^ e\<close>.\<close>

datatype float64 = Finite int int | PosInf | NegInf | NaN

fun isFinite :: "float64 \<Rightarrow> bool" where
  "isFinite (Finite m e) = True"
| "isFinite PosInf = False"
| "isFinite NegInf = False"
| "isFinite NaN = False"

text \<open>A \<^verbatim>\<open>time.Time\<close> held in an \<^verbatim>\<open>interface{}\<close>: its year and its RFC 3339 text.\<close>

datatype Timestamp = Timestamp (ts_year: int) (ts_rfc3339: string)

text \<open>What an \<^verbatim>\<open>interface{}\<close> holds after \<^verbatim>\<open>rows.Scan\<close>, and what a struct field of
  the marshalled structs holds: \<^verbatim>\<open>nil\<close> (SQL NULL) or one of the driver's value types.\<close>

datatype Value =
    VNil
  | VInt int
  | VFloat float64
  | VBool bool
  | VBytes string
  | VString string
  | VTime Timestamp

text \<open>The JSON document \<^verbatim>\<open>json.Marshal\<close> writes, as a tree. \<open>JBase64 b\<close> is the JSON
  string holding the base64 text of the bytes \<open>b\<close> (how a \<^verbatim>\<open>[]byte\<close> is encoded); an
  object lists its members in the order they are written.\<close>

datatype json =
    JNull
  | JBool bool
  | JInt int
  | JFloat float64
  | JString string
  | JBase64 string
  | JArray "json list"
  | JObject "(string \<times> json) list"

text \<open>\<^verbatim>\<open>json.Marshal\<close> of one value; \<open>None\<close> is the returned error: a NaN or an
  infinity (\<^verbatim>\<open>UnsupportedValueError\<close>), a time whose year is outside 0..9999.\<close>

fun marshalValue :: "Value \<Rightarrow> json option" where
  "marshalValue VNil = Some JNull"
| "marshalValue (VInt i) = Some (JInt i)"
| "marshalValue (VFloat f) = (if isFinite f then Some (JFloat f) else None)"
| "marshalValue (VBool b) = Some (JBool b)"
| "marshalValue (VBytes b) = Some (JBase64 b)"
| "marshalValue (VString s) = Some (JString s)"
| "marshalValue (VTime t) =
     (if 0 \<le> ts_year t \<and> ts_year t \<le> 9999 then Some (JString (ts_rfc3339 t)) else None)"

text \<open>The members of an object, each value marshalled; the first error is the result.\<close>

definition marshalMembers :: "(string \<times> Value) list \<Rightarrow> (string \<times> json) list option" where
  "marshalMembers kvs = those (map (\<lambda>(k, v). map_option (Pair k) (marshalValue v)) kvs)"

text \<open>A struct is written field by field, in declaration order.\<close>

definition marshalStruct :: "(string \<times> Value) list \<Rightarrow> json option" where
  "marshalStruct fields = map_option JObject (marshalMembers fields)"

text \<open>A \<^verbatim>\<open>map[string]interface{}\<close> is an association list with one entry per key
  (\<open>AList.update\<close> is the assignment \<^verbatim>\<open>m[k] = v\<close>); \<^verbatim>\<open>json.Marshal\<close> writes its
  members sorted by key, bytewise.\<close>

type_synonym gomap = "(string \<times> Value) list"

definition marshalMap :: "gomap \<Rightarrow> json option" where
  "marshalMap m = map_option (\<lambda>kvs. JObject (sort_key fst kvs)) (marshalMembers m)"

text \<open>A Go slice is \<^verbatim>\<open>nil\<close> (\<open>None\<close>) or holds elements; \<^verbatim>\<open>append\<close> to \<^verbatim>\<open>nil\<close>
  allocates. \<^verbatim>\<open>json.Marshal\<close> writes a \<^verbatim>\<open>nil\<close> slice as \<^verbatim>\<open>null\<close> and any other as an
  array.\<close>

type_synonym 'a slice = "'a list option"

fun append_slice :: "'a slice \<Rightarrow> 'a \<Rightarrow> 'a slice" where
  "append_slice None x = Some [x]"
| "append_slice (Some xs) x = Some (xs @ [x])"

fun marshalSlice :: "('a \<Rightarrow> json option) \<Rightarrow> 'a slice \<Rightarrow> json option" where
  "marshalSlice f None = Some JNull"
| "marshalSlice f (Some xs) = map_option JArray (those (map f xs))"

text \<open>Looking a member up in an object.\<close>

fun json_member :: "json \<Rightarrow> string \<Rightarrow> json option" where
  "json_member (JObject kvs) k = map_of kvs k"
| "json_member _ k = None"

text \<open>The keys of an object, in the order they are written.\<close>

fun json_keys :: "json \<Rightarrow> string list" where
  "json_keys (JObject kvs) = map fst kvs"
| "json_keys _ = []"

section \<open>Station and its MarshalJSON\<close>

datatype NullFloat64 = NullFloat64 (Float64: float64) (Valid: bool)

datatype Station = Station
  (StationNumber: int)
  (StationName: string)
  (Latitude: float64)
  (Longitude: float64)
  (Elevation: NullFloat64)

text \<open>The fields the embedded \<^verbatim>\<open>Alias\<close> contributes to the anonymous struct: its own
  \<^verbatim>\<open>elevation\<close> is shadowed by the outer field of the same JSON name, which is declared
  at a lesser depth, so \<^verbatim>\<open>encoding/json\<close> drops it.\<close>

definition Alias :: "Station \<Rightarrow> (string \<times> Value) list" where
  "Alias s =
     [(''station_number'', VInt (StationNumber s)),
      (''station_name'', VString (StationName s)),
      (''latitude'', VFloat (Latitude s)),
      (''longitude'', VFloat (Longitude s))]"

definition MarshalJSON :: "Station \<Rightarrow> json option" where
  "MarshalJSON s =
     (if Valid (Elevation s)
      then marshalStruct (Alias s @ [(''elevation'', VFloat (Float64 (Elevation s)))])
      else marshalStruct (Alias s @ [(''elevation'', VNil)]))"

section \<open>The storage collaborator, as the handlers see it\<close>

text \<open>The step \<^verbatim>\<open>rows.Next()\<close>/\<^verbatim>\<open>rows.Scan(...)\<close> either delivers a row or
  \<^verbatim>\<open>Scan\<close> returns an error.\<close>

datatype 'r Item = Row 'r | ScanError

text \<open>An open result set: \<^verbatim>\<open>rows.Columns()\<close>, the rows \<^verbatim>\<open>rows.Next()\<close> delivers
  before it returns false, and whether \<^verbatim>\<open>rows.Err()\<close> is an error then.\<close>

datatype 'r Rows = Rows (Columns: "string list") (Items: "'r Item list") (Err: bool)

text \<open>\<^verbatim>\<open>db.Query\<close>: an error (the statement is rejected, the connection fails) or an
  open result set.\<close>

datatype 'r QueryResult = QueryError | QueryOk "'r Rows"

text \<open>A call \<^verbatim>\<open>db.Query(query, args...)\<close>: the statement text and its bound parameters.\<close>

type_synonym Query = "string \<times> string list"

text \<open>The database handle \<^verbatim>\<open>db\<close>. For \<^verbatim>\<open>/stations\<close> a row is the \<^verbatim>\<open>Station\<close> that
  \<^verbatim>\<open>Scan\<close> filled in; for \<^verbatim>\<open>/input/data\<close> it is the list of driver values of the
  row.\<close>

datatype DB = DB
  (QueryStations: "Query \<Rightarrow> Station QueryResult")
  (QueryWeather: "Query \<Rightarrow> Value list QueryResult")

section \<open>What a handler does with a request\<close>

datatype Body = NoBody | Text string | Json json

text \<open>The handler writes a response; or \<^verbatim>\<open>log.Fatal\<close> prints the error and exits the
  process (\<^verbatim>\<open>os.Exit(1)\<close>); or the handler panics, which \<^verbatim>\<open>net/http\<close> recovers by
  dropping the connection while the process goes on.\<close>

datatype Outcome = Response nat Body | Fatal | Panic

text \<open>The outcome, and the queries sent to the storage collaborator on the way.\<close>

type_synonym Handled = "Outcome \<times> Query list"

text \<open>\<^verbatim>\<open>http.Error(w, msg, code)\<close> writes the message and a newline as plain text.\<close>

definition Error :: "string \<Rightarrow> nat \<Rightarrow> Outcome" where
  "Error msg code = Response code (Text (msg @ [CHR 0x0A]))"

definition StatusBadRequest :: nat where
  "StatusBadRequest = 400"

definition StatusOK :: nat where
  "StatusOK = 200"

section \<open>The /stations handler\<close>

text \<open>The loop over \<^verbatim>\<open>rows.Next()\<close>: \<open>None\<close> when \<^verbatim>\<open>rows.Scan\<close> fails
  (\<^verbatim>\<open>log.Fatal\<close>).\<close>

fun scanStations :: "Station Item list \<Rightarrow> Station slice \<Rightarrow> Station slice option" where
  "scanStations [] stations = Some stations"
| "scanStations (ScanError # rest) stations = None"
| "scanStations (Row station # rest) stations = scanStations rest (append_slice stations station)"

definition stationsQuery :: Query where
  "stationsQuery = (''SELECT * FROM \"Station\"'', [])"

definition stationsHandler :: "DB \<Rightarrow> Handled" where
  "stationsHandler db =
     (case QueryStations db stationsQuery of
        QueryError \<Rightarrow> (Fatal, [stationsQuery])
      | QueryOk rows \<Rightarrow>
          (case scanStations (Items rows) (Some []) of
             None \<Rightarrow> (Fatal, [stationsQuery])
           | Some stations \<Rightarrow>
               if Err rows then (Fatal, [stationsQuery])
               else (case marshalSlice MarshalJSON stations of
                       None \<Rightarrow> (Fatal, [stationsQuery])
                     | Some jsonData \<Rightarrow> (Response StatusOK (Json jsonData), [stationsQuery]))))"

section \<open>The /input/data handler\<close>

text \<open>\<^verbatim>\<open>for i, val := range values { resultMap[columns[i]] = val }\<close>, for \<open>values\<close> as
  long as \<open>columns\<close>.\<close>

definition resultMap :: "string list \<Rightarrow> Value list \<Rightarrow> gomap" where
  "resultMap columns vals = foldl (\<lambda>m (c, v). AList.update c v m) [] (zip columns vals)"

text \<open>The loop over \<^verbatim>\<open>rows.Next()\<close>. \<^verbatim>\<open>rows.Scan\<close> is given one destination per
  column and fails when the row has another number of values; \<open>None\<close> is its
  \<^verbatim>\<open>log.Fatal\<close>.\<close>

fun scanResults :: "string list \<Rightarrow> Value list Item list \<Rightarrow> gomap slice \<Rightarrow> gomap slice option" where
  "scanResults columns [] results = Some results"
| "scanResults columns (ScanError # rest) results = None"
| "scanResults columns (Row vals # rest) results =
     (if length vals \<noteq> length columns then None
      else scanResults columns rest (append_slice results (resultMap columns vals)))"

text \<open>Lines 152-160: every piece of the \<^verbatim>\<open>type\<close> parameter between double quotes, the
  pieces joined by commas.\<close>

definition dataType :: "string \<Rightarrow> string" where
  "dataType typ = Join (map (\<lambda>t. ''\"'' @ t @ ''\"'') (Split typ (CHR '',''))) '',''"

text \<open>Line 187.\<close>

definition query :: "string \<Rightarrow> string" where
  "query typ =
     ''SELECT '' @ dataType typ @
     '',\"Tanggal\" FROM \"Weather\" WHERE station_number = $1 AND TO_DATE(\"Tanggal\", 'YYYY-MM-DD') BETWEEN $2 AND $3''"

text \<open>Lines 189-225: the query is run and its rows are written as JSON. The error of
  \<^verbatim>\<open>rows.Columns()\<close> is dropped by the source, and \<^verbatim>\<open>rows.Err()\<close> is never read.\<close>

definition runQuery :: "DB \<Rightarrow> Query \<Rightarrow> Handled" where
  "runQuery db q =
     (case QueryWeather db q of
        QueryError \<Rightarrow> (Fatal, [q])
      | QueryOk rows \<Rightarrow>
          (case scanResults (Columns rows) (Items rows) None of
             None \<Rightarrow> (Fatal, [q])
           | Some results \<Rightarrow>
               (case marshalSlice marshalMap results of
                  None \<Rightarrow> (Fatal, [q])
                | Some jsonData \<Rightarrow> (Response StatusOK (Json jsonData), [q]))))"

text \<open>Lines 149-225, the body of the handler after the preflight check. The slice
  \<open>dateRangeParts\<close> is indexed at 0 and at 1 without a length check: a missing element
  is an index-out-of-range panic.\<close>

definition fetchObservations :: "DB \<Rightarrow> string \<Rightarrow> string \<Rightarrow> string \<Rightarrow> Handled" where
  "fetchObservations db stationNumber dateRange typ =
     (if dataType typ = ''\"\"''
      then (Error ''Invalid request. Missing data types.'' StatusBadRequest, [])
      else if Atoi stationNumber = None
      then (Error ''Invalid request. Missing data types.'' StatusBadRequest, [])
      else (case Split dateRange (CHR '','') of
              [] \<Rightarrow> (Panic, [])
            | part0 # parts \<Rightarrow>
                (case Parse part0 of
                   None \<Rightarrow> (Fatal, [])
                 | Some startDate \<Rightarrow>
                     (case parts of
                        [] \<Rightarrow> (Panic, [])
                      | part1 # _ \<Rightarrow>
                          (case Parse part1 of
                             None \<Rightarrow> (Fatal, [])
                           | Some endDate \<Rightarrow>
                               runQuery db
                                 (query typ, [stationNumber, Format startDate, Format endDate]))))))"

text \<open>The handler registered for \<^verbatim>\<open>/input/data\<close>: a preflight request is answered
  with the headers alone.\<close>

definition MethodOptions :: string where
  "MethodOptions = ''OPTIONS''"

definition inputDataHandler :: "DB \<Rightarrow> string \<Rightarrow> string \<Rightarrow> string \<Rightarrow> string \<Rightarrow> Handled" where
  "inputDataHandler db method stationNumber dateRange typ =
     (if method = MethodOptions then (Response StatusOK NoBody, [])
      else fetchObservations db stationNumber dateRange typ)"

section \<open>The serving process\<close>

text \<open>A request: \<^verbatim>\<open>GET /stations\<close> (the handler reads nothing of the request), or a
  request to \<^verbatim>\<open>/input/data\<close> with its method and the query parameters
  \<^verbatim>\<open>stationNumber\<close>, \<^verbatim>\<open>dateRange\<close> and \<^verbatim>\<open>type\<close> (empty when absent).\<close>

datatype Request = GetStations | InputData string string string string

datatype Process = Running | Halted

definition handle :: "DB \<Rightarrow> Request \<Rightarrow> Handled" where
  "handle db r =
     (case r of
        GetStations \<Rightarrow> stationsHandler db
      | InputData method stationNumber dateRange typ \<Rightarrow>
          inputDataHandler db method stationNumber dateRange typ)"

text \<open>One request arriving at the process: a halted process serves nothing (\<open>None\<close>);
  a running one runs the handler, and \<^verbatim>\<open>log.Fatal\<close> halts it.\<close>

definition serve :: "Process \<Rightarrow> DB \<times> Request \<Rightarrow> Process \<times> Outcome option" where
  "serve p dr =
     (case p of
        Halted \<Rightarrow> (Halted, None)
      | Running \<Rightarrow>
          (let out = fst (handle (fst dr) (snd dr))
           in (if out = Fatal then Halted else Running, Some out)))"

text \<open>Requests arriving one after the other, each with the database as it answers then.\<close>

fun serveAll :: "Process \<Rightarrow> (DB \<times> Request) list \<Rightarrow> Process \<times> Outcome option list" where
  "serveAll p [] = (p, [])"
| "serveAll p (dr # rest) =
     (let (p', out) = serve p dr; (p'', outs) = serveAll p' rest in (p'', out # outs))"

section \<open>Vocabulary of the properties\<close>

text \<open>The storage layer fails on the \<^verbatim>\<open>/stations\<close> request: \<^verbatim>\<open>db.Query\<close> returns an
  error, \<^verbatim>\<open>rows.Scan\<close> fails on a row, or \<^verbatim>\<open>rows.Err()\<close> reports an error after the
  last row.\<close>

definition stationsStorageFails :: "DB \<Rightarrow> bool" where
  "stationsStorageFails db =
     (case QueryStations db stationsQuery of
        QueryError \<Rightarrow> True
      | QueryOk rows \<Rightarrow> ScanError \<in> set (Items rows) \<or> Err rows)"

text \<open>The storage layer fails on a query of \<^verbatim>\<open>/input/data\<close>: \<^verbatim>\<open>db.Query\<close> returns an
  error, or \<^verbatim>\<open>rows.Scan\<close> fails on a row.\<close>

definition weatherStorageFails :: "DB \<Rightarrow> Query \<Rightarrow> bool" where
  "weatherStorageFails db q =
     (case QueryWeather db q of
        QueryError \<Rightarrow> True
      | QueryOk rows \<Rightarrow>
          list_ex (\<lambda>item. case item of
                             ScanError \<Rightarrow> True
                           | Row vals \<Rightarrow> length vals \<noteq> length (Columns rows))
            (Items rows))"

text \<open>The storage layer fails on a request: on the query the request's handler
  sends.\<close>

definition storageFails :: "DB \<Rightarrow> Request \<Rightarrow> bool" where
  "storageFails db r =
     (case r of
        GetStations \<Rightarrow> stationsStorageFails db
      | InputData method stationNumber dateRange typ \<Rightarrow>
          (case snd (handle db r) of
             [] \<Rightarrow> False
           | q # _ \<Rightarrow> weatherStorageFails db q))"

text \<open>The text of a statement that stands outside its double-quoted identifiers; the
  flag says whether the scan is inside one. Inside an identifier a doubled quote is SQL's
  escape for one quote: it closes and reopens the identifier, and nothing of it is
  outside.\<close>

fun unquoted :: "bool \<Rightarrow> string \<Rightarrow> string" where
  "unquoted inside [] = []"
| "unquoted inside (c # cs) =
     (if c = CHR 0x22 then unquoted (\<not> inside) cs
      else if inside then unquoted inside cs
      else c # unquoted inside cs)"

text \<open>After the specification ("field names must be individually escaped/quoted as
  identifiers"): the quoted identifier that names \<open>t\<close>, every double quote of \<open>t\<close>
  doubled. The source has no such function; \<open>dataType\<close> is what it does instead.\<close>

definition quoteIdentifier_spec :: "string \<Rightarrow> string" where
  "quoteIdentifier_spec t =
     ''\"'' @ concat (map (\<lambda>c. if c = CHR 0x22 then [c, c] else [c]) t) @ ''\"''"

section \<open>Example databases\<close>

text \<open>A database that rejects every statement (or whose connection is down).\<close>

definition rejectingDB :: DB where
  "rejectingDB = DB (\<lambda>q. QueryError) (\<lambda>q. QueryError)"

text \<open>A database in which no row matches.\<close>

definition emptyDB :: DB where
  "emptyDB =
     DB (\<lambda>q. QueryOk (Rows [''station_number'', ''station_name'', ''latitude'', ''longitude'',
                            ''elevation''] [] False))
        (\<lambda>q. QueryOk (Rows [''tn'', ''Tanggal''] [] False))"

text \<open>Two stations, the second of unknown elevation; and the observation of the
  specification's scenario: one row for station 97230 on 2023-01-15 with \<open>tn = 24.5\<close>
  and \<open>tx\<close> NULL, returned for the columns \<open>tn\<close>, \<open>tx\<close> and the date.\<close>

definition ngurahRai :: Station where
  "ngurahRai = Station 97230 ''Ngurah Rai'' (Finite (-8749) (-10)) (Finite 115167 (-10))
     (NullFloat64 (Finite 3 0) True)"

definition unknownElevation :: Station where
  "unknownElevation = Station 97240 ''Selaparang'' (Finite (-8560) (-10)) (Finite 116094 (-10))
     (NullFloat64 (Finite 0 0) False)"

definition exampleDB :: DB where
  "exampleDB =
     DB (\<lambda>q. QueryOk (Rows [''station_number'', ''station_name'', ''latitude'', ''longitude'',
                            ''elevation''] [Row ngurahRai, Row unknownElevation] False))
        (\<lambda>q. QueryOk (Rows [''tn'', ''tx'', ''Tanggal'']
                        [Row [VFloat (Finite 49 (-1)), VNil, VString ''2023-01-15'']] False))"

section \<open>Facts about the library functions\<close>

lemma Split_not_Nil: "Split s c \<noteq> []"
  by (induction s) (auto split: list.splits)

lemma Split_single_empty: "Split s c = [[]] \<Longrightarrow> s = []"
  by (cases s) (auto simp: Split_not_Nil split: if_splits list.splits)

lemma Join_quoted_length:
  "es \<noteq> [] \<Longrightarrow> \<forall>e \<in> set es. 2 \<le> length e \<Longrightarrow> 2 \<le> length (Join es sep)"
  by (induction es sep rule: Join.induct) auto

lemma Atoi_examples:
  "Atoi ''97230'' = Some 97230" "Atoi ''abc'' = None" "Atoi ''-5'' = Some (- 5)"
  "Atoi ''0'' = Some 0" "Atoi [] = None"
  by (simp_all add: Atoi_def isDigit_def decimal_def digit_def)

lemma Parse_examples:
  "Parse ''2023-01-01'' = Some (Date 2023 1 1)"
  "Parse ''2023-01-10'' = Some (Date 2023 1 10)"
  "Parse ''2023-01-31'' = Some (Date 2023 1 31)"
  "Parse ''2023-13-01'' = None"
  "Parse ''2023-02-30'' = None"
  "Parse ''garbage'' = None"
  "Parse [] = None"
  by (simp_all add: Parse_def isDigit_def decimal_def digit_def getnum_def daysIn_def isLeap_def)

lemma Format_examples:
  "Format (Date 2023 1 1) = ''2023-01-01''"
  "Format (Date 2023 1 10) = ''2023-01-10''"
  "Format (Date 2023 1 31) = ''2023-01-31''"
  by (simp_all add: Format_def appendInt_def digits.simps)

text \<open>A digit is one of the ten bytes \<^verbatim>\<open>'0'\<close> to \<^verbatim>\<open>'9'\<close>.\<close>

lemma isDigit_cases:
  assumes "isDigit c"
  shows "c \<in> set ''0123456789''"
proof -
  from assms obtain k where k: "of_char c = (48::nat) + k" and "k < 10"
    by (auto simp: isDigit_def intro: that [of "of_char c - 48"])
  then consider "k = 0" | "k = 1" | "k = 2" | "k = 3" | "k = 4" | "k = 5" | "k = 6" | "k = 7"
    | "k = 8" | "k = 9"
    by atomize_elim arith
  then show ?thesis
  proof cases
    case 1 with k have "of_char c = (of_char (CHR ''0'') :: nat)" by simp
    then show ?thesis by (simp only: of_char_eq_iff) simp
  next
    case 2 with k have "of_char c = (of_char (CHR ''1'') :: nat)" by simp
    then show ?thesis by (simp only: of_char_eq_iff) simp
  next
    case 3 with k have "of_char c = (of_char (CHR ''2'') :: nat)" by simp
    then show ?thesis by (simp only: of_char_eq_iff) simp
  next
    case 4 with k have "of_char c = (of_char (CHR ''3'') :: nat)" by simp
    then show ?thesis by (simp only: of_char_eq_iff) simp
  next
    case 5 with k have "of_char c = (of_char (CHR ''4'') :: nat)" by simp
    then show ?thesis by (simp only: of_char_eq_iff) simp
  next
    case 6 with k have "of_char c = (of_char (CHR ''5'') :: nat)" by simp
    then show ?thesis by (simp only: of_char_eq_iff) simp
  next
    case 7 with k have "of_char c = (of_char (CHR ''6'') :: nat)" by simp
    then show ?thesis by (simp only: of_char_eq_iff) simp
  next
    case 8 with k have "of_char c = (of_char (CHR ''7'') :: nat)" by simp
    then show ?thesis by (simp only: of_char_eq_iff) simp
  next
    case 9 with k have "of_char c = (of_char (CHR ''8'') :: nat)" by simp
    then show ?thesis by (simp only: of_char_eq_iff) simp
  next
    case 10 with k have "of_char c = (of_char (CHR ''9'') :: nat)" by simp
    then show ?thesis by (simp only: of_char_eq_iff) simp
  qed
qed

lemma digit_table:
  assumes "isDigit c"
  shows "digit c < 10 \<and> ''0123456789'' ! digit c = c"
  using isDigit_cases [OF assms] by (auto simp: digit_def)

lemma isDigit_not_comma: "isDigit c \<Longrightarrow> c \<noteq> CHR '',''"
  by (auto simp: isDigit_def)


lemma decimal_snoc: "decimal (cs @ [c]) = decimal cs * 10 + digit c"
  by (simp add: decimal_def)

lemma digits_step:
  "d < 10 \<Longrightarrow>
     digits (n * 10 + d) =
       (if n = 0 then [''0123456789'' ! d] else digits n @ [''0123456789'' ! d])"
  by (subst digits.simps) auto

lemma pad_digits_decimal:
  "list_all isDigit cs \<Longrightarrow> cs \<noteq> [] \<Longrightarrow>
     replicate (length cs - length (digits (decimal cs))) (CHR ''0'') @ digits (decimal cs) = cs"
proof (induction cs rule: rev_induct)
  case Nil
  then show ?case by simp
next
  case (snoc c cs)
  then have c: "isDigit c" and cs: "list_all isDigit cs" by simp_all
  note t = digit_table [OF c]
  show ?case
  proof (cases "cs = []")
    case True
    with t digits_step [of "digit c" 0] show ?thesis by (simp add: decimal_def)
  next
    case False
    with snoc.IH cs
    have IH: "replicate (length cs - length (digits (decimal cs))) (CHR ''0'') @
                digits (decimal cs) = cs"
      by simp
    then have "length cs - length (digits (decimal cs)) + length (digits (decimal cs)) = length cs"
      by (metis length_append length_replicate)
    then have len: "length (digits (decimal cs)) \<le> length cs" by arith
    show ?thesis
    proof (cases "decimal cs = 0")
      case True
      have "digits 0 = ''0''" by (simp add: digits.simps)
      with IH True have "replicate (length cs - 1) (CHR ''0'') @ ''0'' = cs" by simp
      then have "replicate (length cs) (CHR ''0'') = cs"
        using False by (cases "length cs") (simp_all add: replicate_append_same)
      with True t digits_step [of "digit c" 0] show ?thesis
        by (simp add: decimal_snoc)
    next
      case nz: False
      with t digits_step [of "digit c" "decimal cs"]
      have "digits (decimal (cs @ [c])) = digits (decimal cs) @ [c]"
        by (simp add: decimal_snoc)
      with IH len show ?thesis by (simp add: Suc_diff_le)
    qed
  qed
qed

lemma appendInt_decimal:
  "list_all isDigit cs \<Longrightarrow> cs \<noteq> [] \<Longrightarrow> appendInt (int (decimal cs)) (length cs) = cs"
  by (simp add: appendInt_def Let_def pad_digits_decimal)

lemma skip_dash: "skip v ''-'' = Some r \<longleftrightarrow> v = CHR ''-'' # r"
  by (cases v) auto

lemma getnum_fixed:
  "getnum v True = Some (n, r) \<longleftrightarrow>
     (\<exists>a b. v = a # b # r \<and> isDigit a \<and> isDigit b \<and> n = int (decimal [a, b]))"
  by (auto simp: getnum_def decimal_def split: list.splits)

text \<open>What \<open>Parse\<close> accepts: four digits, a dash, two digits, a dash, two digits.\<close>

lemma Parse_SomeD:
  assumes "Parse v = Some d"
  shows "\<exists>ys a b c e.
           v = ys @ CHR ''-'' # a # b # CHR ''-'' # [c, e] \<and> length ys = 4 \<and>
           list_all isDigit ys \<and> isDigit a \<and> isDigit b \<and> isDigit c \<and> isDigit e \<and>
           d = Date (int (decimal ys)) (int (decimal [a, b])) (int (decimal [c, e]))"
proof -
  from assms have l: "\<not> length v < 4" and h: "isDigit (hd v)" and ys: "list_all isDigit (take 4 v)"
    by (auto simp: Parse_def split: if_splits)
  with assms have p1: "(case skip (drop 4 v) ''-'' of
          None \<Rightarrow> None
        | Some v1 \<Rightarrow>
            (case getnum v1 True of
               None \<Rightarrow> None
             | Some (m, v2) \<Rightarrow>
                 if m \<le> 0 \<or> 12 < m then None
                 else (case skip v2 ''-'' of
                         None \<Rightarrow> None
                       | Some v3 \<Rightarrow>
                           (case getnum v3 True of
                              None \<Rightarrow> None
                            | Some (d, v4) \<Rightarrow>
                                if v4 \<noteq> [] then None
                                else if d < 1 \<or> daysIn m (int (decimal (take 4 v))) < d then None
                                else Some (Date (int (decimal (take 4 v))) m d))))) = Some d"
    by (simp add: Parse_def Let_def)
  then obtain v1 where s1: "skip (drop 4 v) ''-'' = Some v1"
    by (cases "skip (drop 4 v) ''-''") simp_all
  with p1 obtain m v2 where g1: "getnum v1 True = Some (m, v2)"
    by (cases "getnum v1 True") auto
  with p1 s1 obtain v3 where s2: "skip v2 ''-'' = Some v3"
    by (cases "skip v2 ''-''") (simp_all split: if_splits)
  with p1 s1 g1 obtain dd v4 where g2: "getnum v3 True = Some (dd, v4)"
    by (cases "getnum v3 True") (auto split: if_splits)
  with p1 s1 g1 s2 have v4: "v4 = []"
    and d: "d = Date (int (decimal (take 4 v))) m dd"
    by (auto split: if_splits)
  from s1 have 1: "drop 4 v = CHR ''-'' # v1" by (simp add: skip_dash)
  from g1 obtain a b where 2: "v1 = a # b # v2" and ab: "isDigit a" "isDigit b"
    and m: "m = int (decimal [a, b])"
    by (auto simp: getnum_fixed)
  from s2 have 3: "v2 = CHR ''-'' # v3" by (simp add: skip_dash)
  from g2 v4 obtain c e where 4: "v3 = [c, e]" and ce: "isDigit c" "isDigit e"
    and dd: "dd = int (decimal [c, e])"
    by (auto simp: getnum_fixed)
  have "take 4 v @ drop 4 v = v" by (rule append_take_drop_id)
  with 1 2 3 4 have v: "v = take 4 v @ CHR ''-'' # a # b # CHR ''-'' # [c, e]" by simp
  from l have "length (take 4 v) = 4" by simp
  with v ys ab ce d m dd show ?thesis by blast
qed

text \<open>Printing a parsed date gives the text that was parsed: the query receives the two
  dates as they were sent.\<close>

lemma Format_Parse: "Parse v = Some d \<Longrightarrow> Format d = v"
proof -
  assume "Parse v = Some d"
  from Parse_SomeD [OF this] obtain ys a b c e
    where v: "v = ys @ CHR ''-'' # a # b # CHR ''-'' # [c, e]" and l: "length ys = 4"
      and ys: "list_all isDigit ys" and dg: "isDigit a" "isDigit b" "isDigit c" "isDigit e"
      and d: "d = Date (int (decimal ys)) (int (decimal [a, b])) (int (decimal [c, e]))"
    by blast
  from l have "ys \<noteq> []" by auto
  from appendInt_decimal [OF ys this] l have y: "appendInt (int (decimal ys)) 4 = ys" by simp
  from dg have "list_all isDigit [a, b]" by simp
  from appendInt_decimal [OF this] have m: "appendInt (int (decimal [a, b])) 2 = [a, b]"
    by (simp add: numeral_2_eq_2)
  from dg have "list_all isDigit [c, e]" by simp
  from appendInt_decimal [OF this] have dd: "appendInt (int (decimal [c, e])) 2 = [c, e]"
    by (simp add: numeral_2_eq_2)
  have "Format d =
          appendInt (int (decimal ys)) 4 @ ''-'' @ appendInt (int (decimal [a, b])) 2 @ ''-'' @
          appendInt (int (decimal [c, e])) 2"
    unfolding d Format_def by simp
  also have "\<dots> = ys @ ''-'' @ [a, b] @ ''-'' @ [c, e]"
    by (simp only: y m dd)
  also have "\<dots> = v" unfolding v by simp
  finally show ?thesis .
qed





section \<open>Facts about the /input/data handler\<close>

text \<open>The check of line 163 catches the empty \<^verbatim>\<open>type\<close> parameter and nothing else.\<close>

lemma dataType_empty_iff: "dataType typ = ''\"\"'' \<longleftrightarrow> typ = []"
proof
  assume h: "dataType typ = ''\"\"''"
  show "typ = []"
  proof (cases "Split typ (CHR '','')")
    case Nil
    then show ?thesis by (simp add: Split_not_Nil)
  next
    case (Cons t ts)
    show ?thesis
    proof (cases ts)
      case Nil
      with Cons h have "t = []" by (simp add: dataType_def)
      with Cons Nil show ?thesis by (simp add: Split_single_empty)
    next
      case (Cons u us)
      have "2 \<le> length (Join (map (\<lambda>t. ''\"'' @ t @ ''\"'') (u # us)) '','')"
        by (rule Join_quoted_length) auto
      with \<open>Split typ (CHR '','') = t # ts\<close> Cons have "5 \<le> length (dataType typ)"
        by (simp add: dataType_def)
      with h show ?thesis by simp
    qed
  qed
next
  assume "typ = []"
  then show "dataType typ = ''\"\"''" by (simp add: dataType_def)
qed

text \<open>A request that passes the three validations runs exactly one query, with the
  station number and the two dates as they were sent.\<close>

lemma fetchObservations_valid:
  assumes "typ \<noteq> []" and "Atoi stationNumber = Some n"
    and "Split dateRange (CHR '','') = startPart # endPart # rest"
    and "Parse startPart = Some startDate" and "Parse endPart = Some endDate"
  shows "fetchObservations db stationNumber dateRange typ =
           runQuery db (query typ, [stationNumber, startPart, endPart])"
  using assms by (simp add: fetchObservations_def dataType_empty_iff Format_Parse)

lemma runQuery_issues: "snd (runQuery db q) = [q]"
  by (simp add: runQuery_def split: QueryResult.splits option.splits)

lemma runQuery_no_rows:
  "QueryWeather db q = QueryOk (Rows columns [] err) \<Longrightarrow>
     runQuery db q = (Response 200 (Json JNull), [q])"
  by (simp add: runQuery_def StatusOK_def)

section \<open>Validation of the type parameter\<close>

text \<open>
  C4 (as amended). For every request whose \<^verbatim>\<open>type\<close> parameter is empty or absent,
  whatever the station number and the date range are, \<open>fetchObservations\<close> answers 400
  with the text "Invalid request. Missing data types." and sends no query to the storage
  collaborator.
\<close>

theorem empty_type_is_invalid_request:
  "fetchObservations db stationNumber dateRange [] =
     (Response 400 (Text (''Invalid request. Missing data types.'' @ [CHR 0x0A])), [])"
  by (simp add: fetchObservations_def dataType_def Error_def StatusBadRequest_def)

theorem empty_type_is_invalid_request_witness:
  "fetchObservations exampleDB ''abc'' ''garbage'' [] =
     (Response 400 (Text (''Invalid request. Missing data types.'' @ [CHR 0x0A])), [])"
  using empty_type_is_invalid_request [of exampleDB "''abc''" "''garbage''"] by simp

text \<open>
  C4 as stated fails for a \<^verbatim>\<open>type\<close> of commas only: \<^verbatim>\<open>type=,\<close> splits into two empty
  names, passes the check of line 163, and the statement with two zero-length
  identifiers is sent to the database; the database rejecting it ends in \<^verbatim>\<open>log.Fatal\<close>.
\<close>

theorem commas_only_type_reaches_storage:
  "fetchObservations rejectingDB ''97230'' ''2023-01-01,2023-01-31'' '','' =
     (Fatal,
      [(''SELECT \"\",\"\",\"Tanggal\" FROM \"Weather\" WHERE station_number = $1 AND TO_DATE(\"Tanggal\", 'YYYY-MM-DD') BETWEEN $2 AND $3'',
        [''97230'', ''2023-01-01'', ''2023-01-31''])])"
  by (simp add: fetchObservations_def dataType_def query_def runQuery_def rejectingDB_def
      Atoi_examples Parse_examples Format_examples)

section \<open>Validation of the station number\<close>

text \<open>
  C7. For every \<^verbatim>\<open>stationNumber\<close> that \<^verbatim>\<open>strconv.Atoi\<close> does not parse as an integer,
  \<open>fetchObservations\<close> answers 400 and sends no query to the storage collaborator,
  whatever the other parameters are.
\<close>

theorem stationNumber_not_integer_is_invalid_request:
  assumes "Atoi stationNumber = None"
  shows "fetchObservations db stationNumber dateRange typ =
     (Response 400 (Text (''Invalid request. Missing data types.'' @ [CHR 0x0A])), [])"
  using assms by (simp add: fetchObservations_def Error_def StatusBadRequest_def)

theorem stationNumber_not_integer_is_invalid_request_witness:
  "Atoi ''abc'' = None \<and>
   fetchObservations exampleDB ''abc'' ''2023-01-01,2023-01-31'' ''tn,tx'' =
     (Response 400 (Text (''Invalid request. Missing data types.'' @ [CHR 0x0A])), [])"
  using stationNumber_not_integer_is_invalid_request
    [of "''abc''" exampleDB "''2023-01-01,2023-01-31''" "''tn,tx''"]
  by (simp add: Atoi_examples)

text \<open>
  C9 (as amended). \<open>fetchObservations\<close> sends a query to the storage collaborator exactly
  when the \<^verbatim>\<open>type\<close> parameter is not empty, \<^verbatim>\<open>strconv.Atoi\<close> parses the station number
  as an integer of any sign, and the first two comma-separated pieces of the date range
  parse as dates. Nothing requires the integer to be positive.
\<close>

theorem accepted_iff_stationNumber_integer:
  "snd (fetchObservations db stationNumber dateRange typ) \<noteq> [] \<longleftrightarrow>
     typ \<noteq> [] \<and> (\<exists>n. Atoi stationNumber = Some n) \<and>
     (\<exists>startPart endPart rest startDate endDate.
        Split dateRange (CHR '','') = startPart # endPart # rest \<and>
        Parse startPart = Some startDate \<and> Parse endPart = Some endDate)"
  by (auto simp: fetchObservations_def dataType_empty_iff runQuery_issues
      split: list.splits option.splits)

theorem accepted_iff_stationNumber_integer_witness:
  "snd (fetchObservations exampleDB ''97230'' ''2023-01-01,2023-01-31'' ''tn,tx'') \<noteq> [] \<and>
   Atoi ''97230'' = Some 97230 \<and>
   snd (fetchObservations exampleDB ''abc'' ''2023-01-01,2023-01-31'' ''tn,tx'') = []"
  using accepted_iff_stationNumber_integer
          [of exampleDB "''97230''" "''2023-01-01,2023-01-31''" "''tn,tx''"]
        accepted_iff_stationNumber_integer
          [of exampleDB "''abc''" "''2023-01-01,2023-01-31''" "''tn,tx''"]
  by (simp add: Atoi_examples Parse_examples)

text \<open>
  C9 as stated fails: the station numbers \<^verbatim>\<open>-5\<close> and \<^verbatim>\<open>0\<close> are accepted, and the
  query runs with them as its first parameter.
\<close>

theorem nonpositive_stationNumber_accepted:
  "fetchObservations emptyDB ''-5'' ''2023-01-01,2023-01-31'' ''tn'' =
     (Response 200 (Json JNull), [(query ''tn'', [''-5'', ''2023-01-01'', ''2023-01-31''])]) \<and>
   fetchObservations emptyDB ''0'' ''2023-01-01,2023-01-31'' ''tn'' =
     (Response 200 (Json JNull), [(query ''tn'', [''0'', ''2023-01-01'', ''2023-01-31''])])"
  by (simp add: fetchObservations_valid [where n = "- 5"] fetchObservations_valid [where n = 0]
      Atoi_examples Parse_examples Format_examples runQuery_def StatusOK_def emptyDB_def)

section \<open>Station.MarshalJSON\<close>

text \<open>
  C5. \<open>MarshalJSON\<close> produces a document for exactly the stations whose encoded numbers
  are finite, and whenever it does the document is an object whose last key is
  \<^verbatim>\<open>elevation\<close>, present exactly once; its value is JSON \<^verbatim>\<open>null\<close> when the stored
  elevation is absent (\<open>Valid\<close> is false) and is the stored number when it is present. A
  \<^verbatim>\<open>null\<close> is neither the number 0 nor a missing key.
\<close>

theorem elevation_null_or_value:
  "((\<exists>j. MarshalJSON s = Some j) \<longleftrightarrow>
      isFinite (Latitude s) \<and> isFinite (Longitude s) \<and>
      (Valid (Elevation s) \<longrightarrow> isFinite (Float64 (Elevation s)))) \<and>
   (\<forall>j. MarshalJSON s = Some j \<longrightarrow>
      json_member j ''elevation'' =
        Some (if Valid (Elevation s) then JFloat (Float64 (Elevation s)) else JNull) \<and>
      json_keys j =
        [''station_number'', ''station_name'', ''latitude'', ''longitude'', ''elevation''])"
  by (auto simp: MarshalJSON_def marshalStruct_def marshalMembers_def Alias_def
      split: if_splits)

theorem elevation_null_or_value_witness:
  "MarshalJSON ngurahRai =
     Some (JObject [(''station_number'', JInt 97230), (''station_name'', JString ''Ngurah Rai''),
                    (''latitude'', JFloat (Finite (- 8749) (- 10))),
                    (''longitude'', JFloat (Finite 115167 (- 10))),
                    (''elevation'', JFloat (Finite 3 0))]) \<and>
   json_member (the (MarshalJSON ngurahRai)) ''elevation'' = Some (JFloat (Finite 3 0)) \<and>
   MarshalJSON unknownElevation =
     Some (JObject [(''station_number'', JInt 97240), (''station_name'', JString ''Selaparang''),
                    (''latitude'', JFloat (Finite (- 8560) (- 10))),
                    (''longitude'', JFloat (Finite 116094 (- 10))),
                    (''elevation'', JNull)]) \<and>
   json_member (the (MarshalJSON unknownElevation)) ''elevation'' = Some JNull"
proof -
  have a: "MarshalJSON ngurahRai =
     Some (JObject [(''station_number'', JInt 97230), (''station_name'', JString ''Ngurah Rai''),
                    (''latitude'', JFloat (Finite (- 8749) (- 10))),
                    (''longitude'', JFloat (Finite 115167 (- 10))),
                    (''elevation'', JFloat (Finite 3 0))])"
    by (simp add: MarshalJSON_def marshalStruct_def marshalMembers_def Alias_def ngurahRai_def)
  have b: "MarshalJSON unknownElevation =
     Some (JObject [(''station_number'', JInt 97240), (''station_name'', JString ''Selaparang''),
                    (''latitude'', JFloat (Finite (- 8560) (- 10))),
                    (''longitude'', JFloat (Finite 116094 (- 10))),
                    (''elevation'', JNull)])"
    by (simp add: MarshalJSON_def marshalStruct_def marshalMembers_def Alias_def
        unknownElevation_def)
  from elevation_null_or_value [of ngurahRai] elevation_null_or_value [of unknownElevation] a b
  show ?thesis by (simp add: ngurahRai_def unknownElevation_def)
qed

section \<open>Results without rows\<close>

text \<open>
  C10. When the query of a valid \<^verbatim>\<open>/input/data\<close> request matches no row, the slice
  \<open>results\<close> is still \<^verbatim>\<open>nil\<close> and the body is the JSON \<^verbatim>\<open>null\<close>; when
  \<^verbatim>\<open>/stations\<close> finds no station, its slice was initialised empty and the body is the
  empty array.
\<close>

theorem no_rows_null_versus_empty_array:
  assumes "typ \<noteq> []" and "Atoi stationNumber = Some n"
    and "Split dateRange (CHR '','') = startPart # endPart # rest"
    and "Parse startPart = Some startDate" and "Parse endPart = Some endDate"
    and "QueryWeather db (query typ, [stationNumber, startPart, endPart]) =
           QueryOk (Rows columns [] err)"
    and "QueryStations db stationsQuery = QueryOk (Rows columns' [] False)"
  shows "fst (fetchObservations db stationNumber dateRange typ) = Response 200 (Json JNull) \<and>
         fst (stationsHandler db) = Response 200 (Json (JArray []))"
  using assms
  by (simp add: fetchObservations_valid runQuery_no_rows stationsHandler_def StatusOK_def)

theorem no_rows_null_versus_empty_array_witness:
  "fst (fetchObservations emptyDB ''97230'' ''2023-01-01,2023-01-31'' ''tn'') =
     Response 200 (Json JNull) \<and>
   fst (stationsHandler emptyDB) = Response 200 (Json (JArray []))"
  by (rule no_rows_null_versus_empty_array
        [where n = 97230 and startPart = "''2023-01-01''" and endPart = "''2023-01-31''" and rest = "[]"
           and startDate = "Date 2023 1 1" and endDate = "Date 2023 1 31"
           and columns = "[''tn'', ''Tanggal'']" and err = False
           and columns' = "[''station_number'', ''station_name'', ''latitude'', ''longitude'',
                            ''elevation'']"])
     (simp_all add: Atoi_examples Parse_examples emptyDB_def)



section \<open>Result rows\<close>

text \<open>The select list of every query is the quoted pieces of the \<^verbatim>\<open>type\<close> parameter
  followed by the date column.\<close>

lemma query_select_list:
  "\<exists>rest. query typ = ''SELECT '' @ dataType typ @ '',\"Tanggal\"'' @ rest"
  by (simp add: query_def)







lemma foldl_update_map_of:
  "map_of (foldl (\<lambda>m (c, v). AList.update c v m) m0 kvs) = map_of m0 ++ map_of (rev kvs)"
proof (induction kvs arbitrary: m0)
  case Nil
  then show ?case by simp
next
  case (Cons kv kvs)
  then show ?case
    by (cases kv) (auto simp: update_conv' map_add_def fun_eq_iff split: option.splits)
qed









text \<open>When a column name occurs more than once in the result set, the map keeps the
  value of its last occurrence.\<close>

lemma map_of_rev_zip_last:
  assumes "length vals = length columns" and "i < length columns"
    and "\<forall>j<length columns. columns ! j = columns ! i \<longrightarrow> j \<le> i"
  shows "map_of (rev (zip columns vals)) (columns ! i) = Some (vals ! i)"
  using assms
proof (induction columns arbitrary: vals rule: rev_induct)
  case Nil
  then show ?case by simp
next
  case (snoc c cs)
  from snoc.prems(1) obtain vs v where vals: "vals = vs @ [v]" and len: "length vs = length cs"
    by (cases vals rule: rev_cases) auto
  show ?case
  proof (cases "i = length cs")
    case True
    with vals len show ?thesis by (simp add: nth_append)
  next
    case False
    with snoc.prems(2) have i: "i < length cs" by simp
    from snoc.prems(3) [rule_format, of "length cs"] i have "c \<noteq> cs ! i"
      by (auto simp: nth_append)
    moreover have "\<forall>j<length cs. cs ! j = cs ! i \<longrightarrow> j \<le> i"
    proof (intro allI impI)
      fix j
      assume "j < length cs" and "cs ! j = cs ! i"
      with snoc.prems(3) [rule_format, of j] i show "j \<le> i" by (simp add: nth_append)
    qed
    ultimately show ?thesis
      using snoc.IH [OF len i] vals len i by (simp add: nth_append)
  qed
qed

lemma resultMap_lookup_last:
  assumes "length vals = length columns" and "i < length columns"
    and "\<forall>j<length columns. columns ! j = columns ! i \<longrightarrow> j \<le> i"
  shows "map_of (resultMap columns vals) (columns ! i) = Some (vals ! i)"
  using map_of_rev_zip_last [OF assms] by (simp add: resultMap_def foldl_update_map_of)







section \<open>Storage failures\<close>

lemma scanStations_fails: "ScanError \<in> set items \<Longrightarrow> scanStations items stations = None"
  by (induction items stations rule: scanStations.induct) auto

lemma scanResults_fails:
  "list_ex (\<lambda>item. case item of ScanError \<Rightarrow> True | Row vals \<Rightarrow> length vals \<noteq> length columns) items
     \<Longrightarrow> scanResults columns items results = None"
  by (induction columns items results rule: scanResults.induct) auto

lemma stationsHandler_fatal:
  "stationsStorageFails db \<Longrightarrow> stationsHandler db = (Fatal, [stationsQuery])"
  by (auto simp: stationsStorageFails_def stationsHandler_def scanStations_fails
      split: QueryResult.splits option.splits)

lemma runQuery_fatal: "weatherStorageFails db q \<Longrightarrow> runQuery db q = (Fatal, [q])"
  by (auto simp: weatherStorageFails_def runQuery_def scanResults_fails
      split: QueryResult.splits)

lemma fetchObservations_issued:
  "snd (fetchObservations db stationNumber dateRange typ) = q # qs \<Longrightarrow>
     fetchObservations db stationNumber dateRange typ = runQuery db q"
  by (auto simp: fetchObservations_def runQuery_issues split: if_splits list.splits option.splits)

lemma serveAll_Halted: "serveAll Halted rs = (Halted, map (\<lambda>_. None) rs)"
  by (induction rs) (auto simp: serve_def)

lemma serveAll_fatal:
  "fst (handle db r) = Fatal \<Longrightarrow>
     serveAll Running ((db, r) # later) = (Halted, Some Fatal # map (\<lambda>_. None) later)"
  by (simp add: serve_def serveAll_Halted)

text \<open>The \<^verbatim>\<open>/input/data\<close> handler never reads \<^verbatim>\<open>rows.Err()\<close>: an iteration that
  ends with an error is answered like one that ends normally, with the rows read so
  far.\<close>

lemma runQuery_ignores_iteration_error:
  assumes "QueryWeather db q = QueryOk (Rows columns items True)"
    and "QueryWeather db' q = QueryOk (Rows columns items False)"
  shows "runQuery db q = runQuery db' q"
  using assms by (simp add: runQuery_def)

text \<open>
  C3 (as amended). For every request on which the storage layer fails (\<^verbatim>\<open>db.Query\<close>
  returns an error, \<^verbatim>\<open>rows.Scan\<close> fails on a row, or for \<^verbatim>\<open>/stations\<close> \<^verbatim>\<open>rows.Err()\<close>
  reports an error), the handler ends in \<^verbatim>\<open>log.Fatal\<close>: no response is written, the
  serving process halts, and none of the requests that follow is served.
\<close>

theorem storage_failure_halts_process:
  assumes "storageFails db r"
  shows "fst (handle db r) = Fatal \<and>
         serveAll Running ((db, r) # later) = (Halted, Some Fatal # map (\<lambda>_. None) later)"
proof -
  have "fst (handle db r) = Fatal"
  proof (cases r)
    case GetStations
    with assms show ?thesis
      by (simp add: storageFails_def handle_def stationsHandler_fatal)
  next
    case (InputData verb stationNumber dateRange fields)
    with assms obtain q qs where q: "snd (handle db r) = q # qs" and f: "weatherStorageFails db q"
      by (auto simp: storageFails_def split: list.splits)
    from q InputData have "handle db r = runQuery db q"
      by (auto simp: handle_def inputDataHandler_def fetchObservations_issued split: if_splits)
    with f show ?thesis by (simp add: runQuery_fatal)
  qed
  then show ?thesis using serveAll_fatal [of db r later] by blast
qed

theorem storage_failure_halts_process_witness:
  "storageFails rejectingDB (InputData ''GET'' ''97230'' ''2023-01-01,2023-01-31'' ''tn,tx'') \<and>
   fst (handle rejectingDB (InputData ''GET'' ''97230'' ''2023-01-01,2023-01-31'' ''tn,tx'')) = Fatal \<and>
   serveAll Running
     [(rejectingDB, InputData ''GET'' ''97230'' ''2023-01-01,2023-01-31'' ''tn,tx''),
      (exampleDB, InputData ''GET'' ''97230'' ''2023-01-01,2023-01-31'' ''tn,tx'')] =
     (Halted, [Some Fatal, None])"
proof -
  have "storageFails rejectingDB (InputData ''GET'' ''97230'' ''2023-01-01,2023-01-31'' ''tn,tx'')"
    by (simp add: storageFails_def handle_def inputDataHandler_def MethodOptions_def
        fetchObservations_valid [where n = 97230] Atoi_examples Parse_examples runQuery_issues
        weatherStorageFails_def rejectingDB_def)
  from this storage_failure_halts_process [OF this,
      of "[(exampleDB, InputData ''GET'' ''97230'' ''2023-01-01,2023-01-31'' ''tn,tx'')]"]
  show ?thesis by simp
qed

text \<open>
  C3 as stated fails: a database that rejects the query of \<^verbatim>\<open>/stations\<close> halts the
  process, and the next request, on a healthy database, is not served.
\<close>

theorem storage_failure_not_per_request:
  "handle rejectingDB GetStations = (Fatal, [stationsQuery]) \<and>
   serveAll Running [(rejectingDB, GetStations), (exampleDB, GetStations)] =
     (Halted, [Some Fatal, None])"
  by (simp add: handle_def stationsHandler_def rejectingDB_def serve_def)

section \<open>Validation of the date range\<close>

text \<open>Once the \<^verbatim>\<open>type\<close> parameter and the station number have passed, no date range
  is answered with 400.\<close>

lemma runQuery_never_400: "fst (runQuery db q) \<noteq> Response 400 body"
  by (simp add: runQuery_def StatusOK_def split: QueryResult.splits option.splits)

lemma dateRange_never_invalid_request:
  assumes "typ \<noteq> []" and "Atoi stationNumber = Some n"
  shows "fst (fetchObservations db stationNumber dateRange typ) \<noteq> Response 400 body"
  using assms
  by (auto simp: fetchObservations_def dataType_empty_iff runQuery_never_400
      split: list.splits option.splits)

text \<open>
  C2 fails on the code. A date that does not parse ends in \<^verbatim>\<open>log.Fatal\<close> (the process
  halts and the next request is not served); a date range without a comma panics on
  \<^verbatim>\<open>dateRangeParts[1]\<close>; and a third piece after a second comma is ignored, so such a
  range is accepted. None of them is answered with 400.
\<close>

theorem malformed_dateRange_crashes:
  "fetchObservations db ''97230'' ''2023-13-01,2023-01-31'' ''tn'' = (Fatal, []) \<and>
   fetchObservations db ''97230'' ''garbage'' ''tn'' = (Fatal, []) \<and>
   fetchObservations db ''97230'' [] ''tn'' = (Fatal, []) \<and>
   fetchObservations db ''97230'' ''2023-01-01'' ''tn'' = (Panic, []) \<and>
   snd (fetchObservations db ''97230'' ''2023-01-01,2023-01-31,2023-02-30'' ''tn'') =
     [(query ''tn'', [''97230'', ''2023-01-01'', ''2023-01-31''])] \<and>
   serveAll Running
     [(db, InputData ''GET'' ''97230'' ''2023-13-01,2023-01-31'' ''tn''), (db, GetStations)] =
     (Halted, [Some Fatal, None])"
  by (simp add: fetchObservations_def dataType_def Atoi_examples Parse_examples Format_examples
      runQuery_issues serve_def handle_def inputDataHandler_def MethodOptions_def)

section \<open>Quoting of the requested field names\<close>

text \<open>An identifier quoted as the specification asks leaves nothing outside the quotes,
  whatever its text.\<close>

lemma unquoted_inside_escaped:
  "unquoted True (concat (map (\<lambda>c. if c = CHR 0x22 then [c, c] else [c]) t) @ CHR 0x22 # rest) =
     unquoted False rest"
  by (induction t) auto

lemma unquoted_quoteIdentifier:
  "unquoted False (quoteIdentifier_spec t @ rest) = unquoted False rest"
  by (simp add: quoteIdentifier_spec_def unquoted_inside_escaped)

lemma unquoted_inside_plain:
  "CHR 0x22 \<notin> set t \<Longrightarrow> unquoted True (t @ CHR 0x22 # rest) = unquoted False rest"
  by (induction t) auto

lemma quoteIdentifier_plain:
  "CHR 0x22 \<notin> set t \<Longrightarrow> quoteIdentifier_spec t = ''\"'' @ t @ ''\"''"
proof -
  assume "CHR 0x22 \<notin> set t"
  then have "concat (map (\<lambda>c. if c = CHR 0x22 then [c, c] else [c]) t) = t"
    by (induction t) auto
  then show ?thesis by (simp add: quoteIdentifier_spec_def)
qed

text \<open>A \<^verbatim>\<open>type\<close> parameter without a double quote only contributes quoted identifiers
  and the commas between them: the rest of the statement is the fixed text of line 187.\<close>

lemma Split_pieces: "t \<in> set (Split s c) \<Longrightarrow> set t \<subseteq> set s"
proof (induction s arbitrary: t)
  case Nil
  then show ?case by simp
next
  case (Cons a s)
  then show ?case
    by (cases "Split s c") (fastforce simp: Split_not_Nil split: if_splits)+
qed

lemma unquoted_Join_quoted:
  assumes "ts \<noteq> []" and "\<forall>t\<in>set ts. CHR 0x22 \<notin> set t"
  shows "unquoted False (Join (map (\<lambda>t. ''\"'' @ t @ ''\"'') ts) '','' @ rest) =
           replicate (length ts - 1) (CHR '','') @ unquoted False rest"
  using assms
proof (induction ts)
  case Nil
  then show ?case by simp
next
  case (Cons t ts)
  show ?case
  proof (cases ts)
    case Nil
    with Cons.prems show ?thesis by (simp add: unquoted_inside_plain)
  next
    case (Cons u us)
    with Cons.IH Cons.prems show ?thesis by (simp add: unquoted_inside_plain)
  qed
qed

lemma unquoted_dataType:
  assumes "CHR 0x22 \<notin> set typ"
  shows "unquoted False (dataType typ @ rest) =
           replicate (length (Split typ (CHR '','')) - 1) (CHR '','') @ unquoted False rest"
proof -
  from assms have "\<forall>t\<in>set (Split typ (CHR '','')). CHR 0x22 \<notin> set t"
    by (auto dest: Split_pieces)
  then show ?thesis
    unfolding dataType_def by (rule unquoted_Join_quoted [OF Split_not_Nil])
qed

lemma query_shape:
  assumes "CHR 0x22 \<notin> set typ"
  shows "unquoted False (query typ) =
           ''SELECT '' @ replicate (length (Split typ (CHR '','')) - 1) (CHR '','') @
           '', FROM  WHERE station_number = $1 AND TO_DATE(, 'YYYY-MM-DD') BETWEEN $2 AND $3''"
  using unquoted_dataType [OF assms] by (simp add: query_def)

text \<open>
  C1 fails on the code. A field name with a double quote in it is neither rejected nor
  escaped: the quote ends the identifier, and what follows it stands in the statement as
  SQL text. For the name \<^verbatim>\<open>x" FROM "Station"--\<close> the statement sent reads another
  table and comments out the rest.
\<close>

theorem quote_in_type_breaks_out_of_identifier:
  "query ''x\" FROM \"Station\"--'' =
     ''SELECT \"x\" FROM \"Station\"--\",\"Tanggal\" FROM \"Weather\" WHERE station_number = $1 AND TO_DATE(\"Tanggal\", 'YYYY-MM-DD') BETWEEN $2 AND $3'' \<and>
   snd (fetchObservations db ''97230'' ''2023-01-01,2023-01-31'' ''x\" FROM \"Station\"--'') =
     [(query ''x\" FROM \"Station\"--'', [''97230'', ''2023-01-01'', ''2023-01-31''])] \<and>
   dataType ''x\" FROM \"Station\"--'' \<noteq> quoteIdentifier_spec ''x\" FROM \"Station\"--'' \<and>
   take 15 (unquoted False (query ''x\" FROM \"Station\"--'')) = ''SELECT  FROM --'' \<and>
   take 15 (unquoted False (query ''x'')) = ''SELECT , FROM  ''"
  by (simp add: query_def dataType_def quoteIdentifier_spec_def
      fetchObservations_valid [where n = 97230] Atoi_examples Parse_examples Format_examples
      runQuery_issues)

text \<open>The specification's example with a semicolon has no double quote: it stays inside
  its identifier.\<close>

lemma semicolon_token_stays_quoted:
  "query ''tn;DROP TABLE Weather'' =
     ''SELECT \"tn;DROP TABLE Weather\",\"Tanggal\" FROM \"Weather\" WHERE station_number = $1 AND TO_DATE(\"Tanggal\", 'YYYY-MM-DD') BETWEEN $2 AND $3'' \<and>
   unquoted False (query ''tn;DROP TABLE Weather'') = unquoted False (query ''tn'')"
  by (simp add: query_shape) (simp add: query_def dataType_def)

end
